theory Spec2Isabelle
  imports Complex_Main "HOL-Library.Word"
begin

section \<open>Go values shared by the embedding\<close>

text \<open>
  A Go pointer \<open>*T\<close> is a \<open>T option\<close> (\<open>None\<close> is \<open>nil\<close>). A run-time panic is a
  value of \<open>panic\<close>: functions that can dereference \<open>nil\<close> or call \<open>panic(err)\<close> return
  \<open>panic + 'a\<close>, with \<open>Inl\<close> for the panic. \<open>log.Fatalf\<close> ends the process and is a
  \<open>Fatal\<close>.
\<close>

datatype panic = NilPointerDereference | Panic string | Fatal string

section \<open>The scheduler's messages (scheduler.proto)\<close>

text \<open>
  \<open>google.protobuf.Timestamp\<close> is imported by the proto file: seconds as int64, nanos as
  int32. A singular field of message type is a pointer in the generated Go code and may be
  unset; a repeated field is a list.
\<close>

record Timestamp =
  seconds :: "64 word"
  nanos :: "32 word"





section \<open>Event store types (pkg/fes/types.go)\<close>

text \<open>
  Modelled from the spec: the message types \<open>Aggregate\<close> and \<open>Event\<close>, which are generated
  code and not among the sources. The fields are the attributes the data model lists (an
  aggregate's id and type; an event's type, aggregate, optional parent, payload bytes,
  metadata string map, creation time and sequence number), named as this file reads them
  (\<open>event.Aggregate\<close>, \<open>event.Type\<close>, \<open>event.Metadata\<close>, \<open>Aggregate{Type: ...}\<close>).
  A Go map is an association list; \<open>None\<close> is the nil map.
\<close>

record Aggregate =
  Aggregate_Id :: string
  Aggregate_Type :: string

record Event =
  Event_Type :: string
  Event_Aggregate :: "Aggregate option"
  Event_Parent :: "Aggregate option"
  Event_Payload :: "8 word list"
  Event_Metadata :: "(string \<times> string) list option"
  Event_Timestamp :: "Timestamp option"
  Event_Sequence :: nat

text \<open>
  Go's \<open>error\<close> interface: the nil interface, a value of dynamic type \<open>*EventStoreErr\<close>
  (whose pointer may itself be nil), or a value of any other dynamic type, kept by its
  message. \<open>EventStoreErr\<close> has the description \<open>S\<close>, the optional aggregate \<open>K\<close>, the
  optional event \<open>E\<close> and the optional cause \<open>C\<close>.
\<close>

datatype error =
    NilError
  | EventStoreErrPtr "EventStoreErr option"
  | OtherError string
and EventStoreErr =
    EventStoreErr (S: string) (K: "Aggregate option") (E: "Event option") (C: error)

text \<open>
  The \<open>With...\<close> methods assign one field of the receiver in place and return the receiver;
  the result below is the receiver's object after the call. A nil receiver panics at the
  assignment.
\<close>

fun WithAggregate :: "Aggregate option \<Rightarrow> EventStoreErr option \<Rightarrow> panic + EventStoreErr" where
  "WithAggregate aggregate None = Inl NilPointerDereference"
| "WithAggregate aggregate (Some err) = Inr (EventStoreErr (S err) aggregate (E err) (C err))"

text \<open>\<open>WithEntity\<close> stores the address of a fresh copy of \<open>entity.Aggregate()\<close>; the entity's
  aggregate is the argument here.\<close>

fun WithEntity :: "Aggregate \<Rightarrow> EventStoreErr option \<Rightarrow> panic + EventStoreErr" where
  "WithEntity key None = Inl NilPointerDereference"
| "WithEntity key (Some err) = Inr (EventStoreErr (S err) (Some key) (E err) (C err))"

fun WithEvent :: "Event option \<Rightarrow> EventStoreErr option \<Rightarrow> panic + EventStoreErr" where
  "WithEvent event None = Inl NilPointerDereference"
| "WithEvent event (Some err) =
     (let err' = EventStoreErr (S err) (K err) event (C err) in
      if K err' = None then
        (case event of
           None \<Rightarrow> Inl NilPointerDereference
         | Some ev \<Rightarrow> WithAggregate (Event_Aggregate ev) (Some err'))
      else Inr err')"

fun WithError :: "error \<Rightarrow> EventStoreErr option \<Rightarrow> panic + EventStoreErr" where
  "WithError cause None = Inl NilPointerDereference"
| "WithError cause (Some err) = Inr (EventStoreErr (S err) (K err) (E err) cause)"

text \<open>
  \<open>Is\<close>: the first test returns false for a non-nil receiver and the nil interface; the type
  assertion fails for the nil interface and for any other dynamic type; then \<open>esErr.S\<close> and
  \<open>err.S\<close> are read, in this order, each a nil dereference when its pointer is nil.
\<close>

fun Is :: "EventStoreErr option \<Rightarrow> error \<Rightarrow> panic + bool" where
  "Is err other =
     (if err \<noteq> None \<and> other = NilError then Inr False
      else case other of
          EventStoreErrPtr esErr \<Rightarrow>
            (case esErr of
               None \<Rightarrow> Inl NilPointerDereference
             | Some e \<Rightarrow>
                 (case err of
                    None \<Rightarrow> Inl NilPointerDereference
                  | Some r \<Rightarrow> Inr (S e = S r)))
        | _ \<Rightarrow> Inr False)"

text \<open>The sentinel errors, as the \<open>var\<close> block initialises them: only \<open>S\<close> is set.\<close>

definition ErrInvalidAggregate :: EventStoreErr where
  "ErrInvalidAggregate = EventStoreErr ''invalid aggregate'' None None NilError"

definition ErrInvalidEvent :: EventStoreErr where
  "ErrInvalidEvent = EventStoreErr ''invalid event'' None None NilError"

definition ErrInvalidEntity :: EventStoreErr where
  "ErrInvalidEntity = EventStoreErr ''invalid entity'' None None NilError"

definition ErrEventStoreOverflow :: EventStoreErr where
  "ErrEventStoreOverflow = EventStoreErr ''event store out of space'' None None NilError"

definition ErrUnsupportedEntityEvent :: EventStoreErr where
  "ErrUnsupportedEntityEvent = EventStoreErr ''event not supported'' None None NilError"

definition ErrCorruptedEventPayload :: EventStoreErr where
  "ErrCorruptedEventPayload = EventStoreErr ''failed to parse event payload'' None None NilError"

definition ErrEntityNotFound :: EventStoreErr where
  "ErrEntityNotFound = EventStoreErr ''entity not found'' None None NilError"

subsection \<open>Notifications\<close>

text \<open>
  An \<open>Entity\<close> is an interface value holding a pointer to the entity's object: it is the
  object's address in a store of entity states. \<open>ApplyEvent\<close> and \<open>UpdateState\<close> change the
  object at that address; \<open>CopyEntity\<close> is the interface's way to a snapshot, a new object.
\<close>

type_synonym Entity = nat

type_synonym 's entity_store = "Entity \<Rightarrow> 's option"

text \<open>
  What \<open>newNotification\<close> calls outside this file: the global tracer's \<open>Extract\<close> on the
  metadata as a text map (a span context, nil or not, and an error, nil or not), the
  event's \<open>Labels()\<close> and \<open>CreatedAt()\<close>, and \<open>pubsub.NewEmptyMsg\<close>.
\<close>

record ('sc, 'l, 't, 'm) notification_env =
  Extract :: "(string \<times> string) list \<Rightarrow> 'sc option \<times> string option"
  Labels :: "Event \<Rightarrow> 'l"
  CreatedAt :: "Event \<Rightarrow> 't"
  NewEmptyMsg :: "'l \<Rightarrow> 't \<Rightarrow> 'm"

record ('sc, 'm) Notification =
  EmptyMsg :: 'm
  Payload :: Entity
  EventType :: string
  SpanCtx :: "'sc option"

text \<open>
  The error of \<open>Extract\<close> decides only whether a warning is logged; the span context it
  returns is kept either way. A nil event panics at \<open>event.Metadata\<close>.
\<close>

fun newNotification ::
  "('sc, 'l, 't, 'm) notification_env \<Rightarrow> Entity \<Rightarrow> Event option
    \<Rightarrow> panic + ('sc, 'm) Notification" where
  "newNotification env entity None = Inl NilPointerDereference"
| "newNotification env entity (Some event) =
     (let spanCtx =
        (case Event_Metadata event of
           None \<Rightarrow> None
         | Some md \<Rightarrow> fst (Extract env md))
      in Inr \<lparr> EmptyMsg = NewEmptyMsg env (Labels env event) (CreatedAt env event),
               Payload = entity,
               EventType = Event_Type event,
               SpanCtx = spanCtx \<rparr>)"

text \<open>An update of the live entity: the object at the entity's address gets a new state.\<close>

definition update_entity :: "'s entity_store \<Rightarrow> Entity \<Rightarrow> 's \<Rightarrow> 's entity_store" where
  "update_entity store entity s = store(entity \<mapsto> s)"

section \<open>The bundle's wiring (cmd/fission-workflows-bundle/bundle/bundle.go)\<close>

record nats_Config =
  Cluster :: string
  URL :: string
  Client :: string

record FissionOptions =
  ExecutorAddress :: string
  ControllerAddr :: string
  RouterAddr :: string

record Options =
  Nats :: "nats_Config option"
  Fission :: "FissionOptions option"
  InternalRuntime :: bool
  InvocationController :: bool
  WorkflowController :: bool
  AdminAPI :: bool
  WorkflowAPI :: bool
  HTTPGateway :: bool
  InvocationAPI :: bool
  Metrics :: bool
  Debug :: bool

subsection \<open>Tracer configuration\<close>

text \<open>
  The Jaeger client's configuration structs, with the fields \<open>Run\<close> writes or reads; the
  remaining fields of \<open>Configuration\<close> are the record's extension, and a composite literal
  leaves the fields it does not name at their zero values. \<open>jaeger.SamplerTypeConst\<close> is
  the client library's name of the constant sampler.
\<close>

record SamplerConfig =
  SamplerConfig_Type :: string
  Param :: real
  SamplingServerURL :: string

record ReporterConfig =
  LogSpans :: bool

record Configuration =
  Sampler :: "SamplerConfig option"
  Reporter :: "ReporterConfig option"

definition SamplerTypeConst :: string where
  "SamplerTypeConst = ''const''"

text \<open>
  The configuration \<open>Run\<close> hands to \<open>InitGlobalTracer\<close>, from the options and the result
  of \<open>jaegercfg.FromEnv()\<close> (an error message or a configuration).
\<close>

definition tracerConfig ::
  "Options \<Rightarrow> string + 'a Configuration_scheme \<Rightarrow> panic + 'a Configuration_scheme" where
  "tracerConfig opts fromEnv =
     (case fromEnv of
        Inl err \<Rightarrow> Inl (Fatal (''Failed to read Jaeger config from env: '' @ err))
      | Inr cfg \<Rightarrow>
          Inr (if Debug opts then
                 cfg\<lparr> Sampler := Some \<lparr> SamplerConfig_Type = SamplerTypeConst, Param = 1,
                                         SamplingServerURL = [] \<rparr>,
                      Reporter := Some \<lparr> LogSpans = True \<rparr> \<rparr>
               else cfg))"

subsection \<open>Event store selection\<close>

text \<open>
  Names declared in packages outside this file: the label key
  \<open>fes.PubSubLabelAggregateType\<close> and the aggregate types
  \<open>aggregates.TypeWorkflowInvocation\<close> and \<open>aggregates.TypeWorkflow\<close>.
\<close>

record names =
  PubSubLabelAggregateType :: string
  TypeWorkflowInvocation :: string
  TypeWorkflow :: string

text \<open>
  What the selection calls outside this file: \<open>util.UID()\<close>, \<open>nats.Connect\<close> (an error or
  an event store client \<open>'n\<close>), the client's \<open>Watch\<close> (an error, or the client now
  watching one more aggregate type) and \<open>mem.NewBackend()\<close> (a backend \<open>'m\<close>).
\<close>

record ('n, 'm) eventstore_env =
  UID :: string
  Connect :: "nats_Config \<Rightarrow> string + 'n"
  Watch :: "'n \<Rightarrow> Aggregate \<Rightarrow> string + 'n"
  NewBackend :: 'm

definition setupNatsEventStoreClient ::
  "names \<Rightarrow> ('n, 'm) eventstore_env \<Rightarrow> string \<Rightarrow> string \<Rightarrow> string \<Rightarrow> panic + 'n" where
  "setupNatsEventStoreClient nm env url cluster clientID =
     (let clientID' = (if clientID = [] then UID env else clientID) in
      case Connect env \<lparr> Cluster = cluster, URL = url, Client = clientID' \<rparr> of
        Inl err \<Rightarrow> Inl (Panic err)
      | Inr es \<Rightarrow>
          (case Watch env es \<lparr> Aggregate_Id = [], Aggregate_Type = TypeWorkflowInvocation nm \<rparr> of
             Inl err \<Rightarrow> Inl (Panic err)
           | Inr es1 \<Rightarrow>
               (case Watch env es1 \<lparr> Aggregate_Id = [], Aggregate_Type = TypeWorkflow nm \<rparr> of
                  Inl err \<Rightarrow> Inl (Panic err)
                | Inr es2 \<Rightarrow> Inr es2)))"

text \<open>
  The two interface variables of \<open>Run\<close>, \<open>es\<close> (the event store) and \<open>esPub\<close> (the event
  publisher), each hold either the NATS client or the in-memory backend.
\<close>

datatype ('n, 'm) Backend = NatsEventStore 'n | MemBackend 'm

definition eventStore ::
  "names \<Rightarrow> ('n, 'm) eventstore_env \<Rightarrow> Options
    \<Rightarrow> panic + (('n, 'm) Backend \<times> ('n, 'm) Backend)" where
  "eventStore nm env opts =
     (case Nats opts of
        Some cfg \<Rightarrow>
          (case setupNatsEventStoreClient nm env (URL cfg) (Cluster cfg) (Client cfg) of
             Inl p \<Rightarrow> Inl p
           | Inr natsEs \<Rightarrow> Inr (NatsEventStore natsEs, NatsEventStore natsEs))
      | None \<Rightarrow>
          (let backend = NewBackend env in Inr (MemBackend backend, MemBackend backend)))"

subsection \<open>Cache subscriptions\<close>

text \<open>
  The selectors \<open>labels.In(key, values...)\<close> and \<open>labels.Or(selectors...)\<close> as the terms the
  two cache set-ups build, and the options they pass to \<open>Subscribe\<close>.
\<close>

datatype Selector = In string "string list" | Or "Selector list"

record SubscriptionOptions =
  Buffer :: int
  LabelMatcher :: Selector

definition invokeSub :: "names \<Rightarrow> SubscriptionOptions" where
  "invokeSub nm =
     \<lparr> Buffer = 50,
       LabelMatcher =
         Or [In (PubSubLabelAggregateType nm) [TypeWorkflowInvocation nm],
             In ''parent.type'' [TypeWorkflowInvocation nm]] \<rparr>"

definition wfSub :: "names \<Rightarrow> SubscriptionOptions" where
  "wfSub nm =
     \<lparr> Buffer = 10,
       LabelMatcher = In (PubSubLabelAggregateType nm) [TypeWorkflow nm] \<rparr>"

text \<open>
  Modelled from the spec: when a selector of package \<open>labels\<close> (pkg/util/labels, not among
  the sources) accepts a set of labels. A subscriber's label-matcher accepts or rejects an
  event's labels, a map from label keys such as \<open>aggregate.type\<close> and \<open>parent.type\<close> to
  values: \<open>In\<close> accepts when the key is present with one of the given values, \<open>Or\<close> when
  one of its selectors accepts.
\<close>

fun Matches :: "Selector \<Rightarrow> (string \<Rightarrow> string option) \<Rightarrow> bool" where
  "Matches (In key vals) ls = (case ls key of None \<Rightarrow> False | Some v \<Rightarrow> v \<in> set vals)"
| "Matches (Or sels) ls = list_ex (\<lambda>sel. Matches sel ls) sels"

section \<open>The schedule message\<close>


section \<open>Event store errors\<close>

lemma WithAggregate_S: "WithAggregate a (Some e) = Inr e' \<Longrightarrow> S e' = S e"
  by auto

lemma WithError_S: "WithError c (Some e) = Inr e' \<Longrightarrow> S e' = S e"
  by auto

lemma WithEntity_S: "WithEntity k (Some e) = Inr e' \<Longrightarrow> S e' = S e"
  by auto

lemma WithEvent_S: "WithEvent ev (Some e) = Inr e' \<Longrightarrow> S e' = S e"
  by (auto simp: Let_def split: if_splits option.splits)

text \<open>
  C4: each error kind of the taxonomy (InvalidAggregate, InvalidEvent, InvalidEntity,
  EventStoreOverflow, UnsupportedEntityEvent, CorruptedEventPayload, EntityNotFound) is a
  sentinel value of the event store's error type; the descriptions of the seven sentinels
  are pairwise different, and \<open>Is\<close> tells any two of them apart.
\<close>

theorem sentinel_descriptions_distinct:
  "distinct (map S [ErrInvalidAggregate, ErrInvalidEvent, ErrInvalidEntity,
                    ErrEventStoreOverflow, ErrUnsupportedEntityEvent,
                    ErrCorruptedEventPayload, ErrEntityNotFound])
   \<and> list_all (\<lambda>x. list_all (\<lambda>y. Is (Some x) (EventStoreErrPtr (Some y)) = Inr (x = y))
          [ErrInvalidAggregate, ErrInvalidEvent, ErrInvalidEntity,
           ErrEventStoreOverflow, ErrUnsupportedEntityEvent,
           ErrCorruptedEventPayload, ErrEntityNotFound])
        [ErrInvalidAggregate, ErrInvalidEvent, ErrInvalidEntity,
         ErrEventStoreOverflow, ErrUnsupportedEntityEvent,
         ErrCorruptedEventPayload, ErrEntityNotFound]"
  by (simp add: ErrInvalidAggregate_def ErrInvalidEvent_def ErrInvalidEntity_def
      ErrEventStoreOverflow_def ErrUnsupportedEntityEvent_def ErrCorruptedEventPayload_def
      ErrEntityNotFound_def)

text \<open>
  C9: \<open>Is\<close> against nil is meant to be false, and it is for the nil interface and for an
  error of another type. For a nil \<open>*EventStoreErr\<close> held in the error interface the
  guard \<open>other == nil\<close> does not fire, the type assertion succeeds, and reading \<open>esErr.S\<close>
  dereferences nil: \<open>Is\<close> panics where the other two paths return false.
\<close>

theorem Is_typed_nil_panics:
  "Is (Some ErrInvalidAggregate) (EventStoreErrPtr None) = Inl NilPointerDereference
   \<and> Is (Some ErrInvalidAggregate) NilError = Inr False
   \<and> Is (Some ErrInvalidAggregate) (OtherError ''connection refused'') = Inr False"
  by simp

text \<open>
  On every other input with a non-nil receiver \<open>Is\<close> compares the descriptions: it returns
  true if and only if the other error is an event store error with the same description.
  The aggregate, the event and the cause are ignored, and the receiver after
  \<open>WithAggregate\<close>, \<open>WithEvent\<close> or \<open>WithError\<close> and the receiver before it satisfy \<open>Is\<close> in
  both directions.
\<close>

lemma Is_same_description:
  "(other \<noteq> EventStoreErrPtr None \<longrightarrow>
      Is (Some e) other =
        Inr (case other of EventStoreErrPtr (Some e2) \<Rightarrow> S e2 = S e | _ \<Rightarrow> False))
   \<and> Is (Some e) NilError = Inr False
   \<and> Is (Some e) (OtherError msg) = Inr False
   \<and> Is (Some e) (EventStoreErrPtr (Some (EventStoreErr (S e) k ev c))) = Inr True
   \<and> (case WithAggregate a (Some e) of
         Inr e' \<Rightarrow> Is (Some e) (EventStoreErrPtr (Some e')) = Inr True
                   \<and> Is (Some e') (EventStoreErrPtr (Some e)) = Inr True
       | Inl p \<Rightarrow> False)
   \<and> (case WithEvent (Some event) (Some e) of
         Inr e' \<Rightarrow> Is (Some e) (EventStoreErrPtr (Some e')) = Inr True
                   \<and> Is (Some e') (EventStoreErrPtr (Some e)) = Inr True
       | Inl p \<Rightarrow> False)
   \<and> (case WithError cause (Some e) of
         Inr e' \<Rightarrow> Is (Some e) (EventStoreErrPtr (Some e')) = Inr True
                   \<and> Is (Some e') (EventStoreErrPtr (Some e)) = Inr True
       | Inl p \<Rightarrow> False)"
  by (cases other) (auto simp: Let_def split: option.splits)

text \<open>
  The sentinel for a missing entity against an error with the same description, an
  aggregate and a cause, and against another sentinel.
\<close>

lemma Is_same_description_example:
  "EventStoreErrPtr (Some ErrInvalidEvent) \<noteq> EventStoreErrPtr None
   \<and> Is (Some ErrEntityNotFound)
        (EventStoreErrPtr (Some (EventStoreErr ''entity not found''
           (Some \<lparr> Aggregate_Id = ''42'', Aggregate_Type = ''invocation'' \<rparr>) None
           (OtherError ''timeout'')))) = Inr True
   \<and> Is (Some ErrEntityNotFound) (EventStoreErrPtr (Some ErrInvalidEvent)) = Inr False"
  using Is_same_description
    [of "EventStoreErrPtr (Some (EventStoreErr ''entity not found''
           (Some \<lparr> Aggregate_Id = ''42'', Aggregate_Type = ''invocation'' \<rparr>) None
           (OtherError ''timeout'')))" ErrEntityNotFound]
    Is_same_description [of "EventStoreErrPtr (Some ErrInvalidEvent)" ErrEntityNotFound]
  by (simp add: ErrEntityNotFound_def ErrInvalidEvent_def)

text \<open>
  C10: for every event store error and every event, \<open>WithEvent\<close> sets the error's event
  to that event; the aggregate becomes the event's aggregate when none was attached and
  stays as it was otherwise; the description and the cause are unchanged.
\<close>

theorem WithEvent_frame:
  "WithEvent (Some ev) (Some err) =
     Inr (EventStoreErr (S err)
            (if K err = None then Event_Aggregate ev else K err)
            (Some ev)
            (C err))"
  by (simp add: Let_def)

section \<open>Notifications\<close>

text \<open>
  C5, as stated, fails on the payload: the notification built for the entity at address 7
  carries address 7 itself, so a later update of the live entity is what a reader of the
  notification's payload sees.
\<close>

theorem newNotification_live_reference_counterexample:
  "(case newNotification
           \<lparr> Extract = (\<lambda>md. (None :: nat option, None)),
             Labels = (\<lambda>e. [(''aggregate.type'', ''invocation'')]),
             CreatedAt = (\<lambda>e. Event_Timestamp e), NewEmptyMsg = Pair \<rparr>
           7
           (Some \<lparr> Event_Type = ''TaskSucceeded'', Event_Aggregate = None, Event_Parent = None,
                   Event_Payload = [], Event_Metadata = None, Event_Timestamp = None,
                   Event_Sequence = 0 \<rparr>) of
      Inr n \<Rightarrow> Payload n = 7
               \<and> update_entity [7 \<mapsto> ''before''] 7 ''after'' (Payload n) = Some ''after''
    | Inl p \<Rightarrow> False)"
  by (simp add: update_entity_def)

text \<open>
  C5, amended: for every entity and event, the notification carries the entity value it
  was given (the same reference: no copy is made), the event's type string, the span
  context the tracer extracts from the event's metadata (none when the event has no
  metadata), and the message built from the event's labels and creation time.
\<close>

theorem newNotification_fields:
  "newNotification env entity (Some event) =
     Inr \<lparr> EmptyMsg = NewEmptyMsg env (Labels env event) (CreatedAt env event),
           Payload = entity,
           EventType = Event_Type event,
           SpanCtx = (case Event_Metadata event of
                        None \<Rightarrow> None
                      | Some md \<Rightarrow> fst (Extract env md)) \<rparr>"
  by (simp add: Let_def)

section \<open>The bundle's wiring\<close>

text \<open>
  C6: without NATS parameters the in-memory backend is both the event store and the event
  publisher; with them, whenever the set-up returns, the NATS client is both (and the
  set-up returns the client when connecting and both watches succeed; otherwise it
  panics with the error).
\<close>

theorem eventStore_selection:
  "(Nats opts = None \<longrightarrow>
      eventStore nm env opts = Inr (MemBackend (NewBackend env), MemBackend (NewBackend env)))
   \<and> (Nats opts \<noteq> None \<longrightarrow>
        (case eventStore nm env opts of
           Inr (es, esPub) \<Rightarrow>
             (\<exists>natsEs. es = NatsEventStore natsEs \<and> esPub = NatsEventStore natsEs)
         | Inl p \<Rightarrow> (\<exists>err. p = Panic err)))
   \<and> (\<forall>cfg es0 es1 es2.
         Nats opts = Some cfg
         \<and> Connect env \<lparr> Cluster = Cluster cfg, URL = URL cfg,
                           Client = (if Client cfg = [] then UID env else Client cfg) \<rparr> = Inr es0
         \<and> Watch env es0 \<lparr> Aggregate_Id = [], Aggregate_Type = TypeWorkflowInvocation nm \<rparr>
             = Inr es1
         \<and> Watch env es1 \<lparr> Aggregate_Id = [], Aggregate_Type = TypeWorkflow nm \<rparr> = Inr es2
         \<longrightarrow> eventStore nm env opts = Inr (NatsEventStore es2, NatsEventStore es2))"
  by (auto simp: eventStore_def setupNatsEventStoreClient_def Let_def
      split: option.splits sum.splits)

theorem eventStore_selection_witness:
  "eventStore \<lparr> PubSubLabelAggregateType = ''aggregate.type'',
                 TypeWorkflowInvocation = ''invocation'', TypeWorkflow = ''workflow'' \<rparr>
              \<lparr> UID = ''uid-1'', Connect = (\<lambda>c. Inr [Client c]),
                 Watch = (\<lambda>es a. Inr (es @ [Aggregate_Type a])), NewBackend = (0::nat) \<rparr>
              \<lparr> Nats = None, Fission = None, InternalRuntime = False,
                 InvocationController = False, WorkflowController = False, AdminAPI = False,
                 WorkflowAPI = False, HTTPGateway = False, InvocationAPI = False,
                 Metrics = False, Debug = False \<rparr>
     = Inr (MemBackend 0, MemBackend 0)
   \<and> eventStore \<lparr> PubSubLabelAggregateType = ''aggregate.type'',
                 TypeWorkflowInvocation = ''invocation'', TypeWorkflow = ''workflow'' \<rparr>
              \<lparr> UID = ''uid-1'', Connect = (\<lambda>c. Inr [Client c]),
                 Watch = (\<lambda>es a. Inr (es @ [Aggregate_Type a])), NewBackend = (0::nat) \<rparr>
              \<lparr> Nats = Some \<lparr> Cluster = ''fissionMQTrigger'',
                               URL = ''nats://nats-streaming:4222'', Client = [] \<rparr>,
                 Fission = None, InternalRuntime = False,
                 InvocationController = False, WorkflowController = False, AdminAPI = False,
                 WorkflowAPI = False, HTTPGateway = False, InvocationAPI = False,
                 Metrics = False, Debug = False \<rparr>
     = Inr (NatsEventStore [''uid-1'', ''invocation'', ''workflow''],
            NatsEventStore [''uid-1'', ''invocation'', ''workflow''])"
  using eventStore_selection
    [of "\<lparr> Nats = None, Fission = None, InternalRuntime = False,
            InvocationController = False, WorkflowController = False, AdminAPI = False,
            WorkflowAPI = False, HTTPGateway = False, InvocationAPI = False,
            Metrics = False, Debug = False \<rparr>"
        "\<lparr> PubSubLabelAggregateType = ''aggregate.type'',
            TypeWorkflowInvocation = ''invocation'', TypeWorkflow = ''workflow'' \<rparr>"
        "\<lparr> UID = ''uid-1'', Connect = (\<lambda>c. Inr [Client c]),
            Watch = (\<lambda>es a. Inr (es @ [Aggregate_Type a])), NewBackend = (0::nat) \<rparr>"]
    eventStore_selection
    [of "\<lparr> Nats = Some \<lparr> Cluster = ''fissionMQTrigger'',
                          URL = ''nats://nats-streaming:4222'', Client = [] \<rparr>,
            Fission = None, InternalRuntime = False,
            InvocationController = False, WorkflowController = False, AdminAPI = False,
            WorkflowAPI = False, HTTPGateway = False, InvocationAPI = False,
            Metrics = False, Debug = False \<rparr>"
        "\<lparr> PubSubLabelAggregateType = ''aggregate.type'',
            TypeWorkflowInvocation = ''invocation'', TypeWorkflow = ''workflow'' \<rparr>"
        "\<lparr> UID = ''uid-1'', Connect = (\<lambda>c. Inr [Client c]),
            Watch = (\<lambda>es a. Inr (es @ [Aggregate_Type a])), NewBackend = (0::nat) \<rparr>"]
  by simp

text \<open>
  C7: in debug mode the tracer's configuration gets the constant sampler with parameter 1
  and a reporter that logs spans; outside debug mode the configuration read from the
  environment, sampler included, is passed on unchanged.
\<close>

theorem tracerConfig_debug:
  "(Debug opts \<longrightarrow>
      tracerConfig opts (Inr cfg) =
        Inr (cfg\<lparr> Sampler := Some \<lparr> SamplerConfig_Type = ''const'', Param = 1,
                                      SamplingServerURL = [] \<rparr>,
                  Reporter := Some \<lparr> LogSpans = True \<rparr> \<rparr>))
   \<and> (\<not> Debug opts \<longrightarrow> tracerConfig opts (Inr cfg) = Inr cfg)"
  by (simp add: tracerConfig_def SamplerTypeConst_def)

theorem tracerConfig_debug_witness:
  "tracerConfig \<lparr> Nats = None, Fission = None, InternalRuntime = False,
                   InvocationController = False, WorkflowController = False,
                   AdminAPI = False, WorkflowAPI = False, HTTPGateway = False,
                   InvocationAPI = False, Metrics = False, Debug = True \<rparr>
       (Inr \<lparr> Sampler = Some \<lparr> SamplerConfig_Type = ''probabilistic'', Param = 1 / 1000,
                                 SamplingServerURL = ''http://jaeger-agent:5778'' \<rparr>,
               Reporter = None \<rparr>)
     = Inr \<lparr> Sampler = Some \<lparr> SamplerConfig_Type = ''const'', Param = 1,
                               SamplingServerURL = [] \<rparr>,
             Reporter = Some \<lparr> LogSpans = True \<rparr> \<rparr>
   \<and> tracerConfig \<lparr> Nats = None, Fission = None, InternalRuntime = False,
                   InvocationController = False, WorkflowController = False,
                   AdminAPI = False, WorkflowAPI = False, HTTPGateway = False,
                   InvocationAPI = False, Metrics = False, Debug = False \<rparr>
       (Inr \<lparr> Sampler = Some \<lparr> SamplerConfig_Type = ''probabilistic'', Param = 1 / 1000,
                                 SamplingServerURL = ''http://jaeger-agent:5778'' \<rparr>,
               Reporter = None \<rparr>)
     = Inr \<lparr> Sampler = Some \<lparr> SamplerConfig_Type = ''probabilistic'', Param = 1 / 1000,
                               SamplingServerURL = ''http://jaeger-agent:5778'' \<rparr>,
             Reporter = None \<rparr>"
  using tracerConfig_debug
    [of "\<lparr> Nats = None, Fission = None, InternalRuntime = False,
            InvocationController = False, WorkflowController = False,
            AdminAPI = False, WorkflowAPI = False, HTTPGateway = False,
            InvocationAPI = False, Metrics = False, Debug = True \<rparr>"
        "\<lparr> Sampler = Some \<lparr> SamplerConfig_Type = ''probabilistic'', Param = 1 / 1000,
                             SamplingServerURL = ''http://jaeger-agent:5778'' \<rparr>,
            Reporter = None \<rparr>"]
    tracerConfig_debug
    [of "\<lparr> Nats = None, Fission = None, InternalRuntime = False,
            InvocationController = False, WorkflowController = False,
            AdminAPI = False, WorkflowAPI = False, HTTPGateway = False,
            InvocationAPI = False, Metrics = False, Debug = False \<rparr>"
        "\<lparr> Sampler = Some \<lparr> SamplerConfig_Type = ''probabilistic'', Param = 1 / 1000,
                             SamplingServerURL = ''http://jaeger-agent:5778'' \<rparr>,
            Reporter = None \<rparr>"]
  by simp

text \<open>
  C8: the invocation cache's subscription accepts exactly the label sets whose aggregate
  type label or whose \<open>parent.type\<close> label is the workflow invocation type; the workflow
  cache's subscription accepts exactly those whose aggregate type label is the workflow
  type.
\<close>

theorem cache_subscriptions_match:
  "(Matches (LabelMatcher (invokeSub nm)) ls \<longleftrightarrow>
      ls (PubSubLabelAggregateType nm) = Some (TypeWorkflowInvocation nm)
      \<or> ls ''parent.type'' = Some (TypeWorkflowInvocation nm))
   \<and> (Matches (LabelMatcher (wfSub nm)) ls \<longleftrightarrow>
        ls (PubSubLabelAggregateType nm) = Some (TypeWorkflow nm))"
  by (auto simp: invokeSub_def wfSub_def split: option.splits)

text \<open>
  A task event of a workflow invocation reaches the invocation cache through its parent
  label, and a task event is not for the workflow cache.
\<close>

theorem cache_subscriptions_match_witness:
  "Matches (LabelMatcher (invokeSub \<lparr> PubSubLabelAggregateType = ''aggregate.type'',
              TypeWorkflowInvocation = ''invocation'', TypeWorkflow = ''workflow'' \<rparr>))
           [''aggregate.type'' \<mapsto> ''task'', ''parent.type'' \<mapsto> ''invocation'']
   \<and> \<not> Matches (LabelMatcher (wfSub \<lparr> PubSubLabelAggregateType = ''aggregate.type'',
              TypeWorkflowInvocation = ''invocation'', TypeWorkflow = ''workflow'' \<rparr>))
           [''aggregate.type'' \<mapsto> ''task'', ''parent.type'' \<mapsto> ''workflow'']"
  using cache_subscriptions_match
    [of "\<lparr> PubSubLabelAggregateType = ''aggregate.type'',
            TypeWorkflowInvocation = ''invocation'', TypeWorkflow = ''workflow'' \<rparr>"
        "[''aggregate.type'' \<mapsto> ''task'', ''parent.type'' \<mapsto> ''invocation'']"]
    cache_subscriptions_match
    [of "\<lparr> PubSubLabelAggregateType = ''aggregate.type'',
            TypeWorkflowInvocation = ''invocation'', TypeWorkflow = ''workflow'' \<rparr>"
        "[''aggregate.type'' \<mapsto> ''task'', ''parent.type'' \<mapsto> ''workflow'']"]
  by simp

end
